theory Spec2Isabelle
  imports
    Complex_Main
    "HOL-Library.Char_ord"
    "HOL-Library.List_Lexorder"
    "HOL-Library.Product_Lexorder"
begin

section \<open>Data model of \<^verbatim>\<open>data_transformer.py\<close>\<close>

text \<open>
  Exceptions are values. The three Python exception classes that the two modules and the
  library calls they make can raise are constructors; any other exception class is
  identified by its class name. The error names of the specification that no source file
  defines are such named classes.
\<close>

datatype error = KeyError | ValueError | TypeError | OtherError string

definition InvalidHorizonError :: error where
  "InvalidHorizonError = OtherError ''InvalidHorizonError''"

definition InsufficientDataError :: error where
  "InsufficientDataError = OtherError ''InsufficientDataError''"

text \<open>
  A cell of a DataFrame is a string (an object column as read from a file), a pandas
  Timestamp (its integer value, nanoseconds since the epoch, time zone naive) or the
  missing datetime \<open>NaT\<close>.
\<close>

datatype cell = Str string | TS int | NaT

text \<open>
  A row is a pandas Series: labels with their values, in column order. A DataFrame is its
  column labels and its rows; the row index labels are not modelled (no function of the
  module reads them).
\<close>

type_synonym row = "(string \<times> cell) list"

record dataframe =
  columns :: "string list"
  rows :: "row list"

text \<open>
  A frame is well formed when its column labels are pairwise different and every row
  carries exactly the column labels, in their order.
\<close>

definition wf_frame :: "dataframe \<Rightarrow> bool" where
  "wf_frame df \<longleftrightarrow>
     distinct (columns df) \<and> list_all (\<lambda>r. map fst r = columns df) (rows df)"

text \<open>\<open>row[col]\<close>: raises KeyError for a label the Series does not have.\<close>

definition row_get :: "row \<Rightarrow> string \<Rightarrow> error + cell" where
  "row_get r k = (case map_of r k of None \<Rightarrow> Inl KeyError | Some c \<Rightarrow> Inr c)"

text \<open>\<open>row[col] = v\<close>: overwrites the value under the label, or appends a new label.\<close>

definition row_set :: "string \<Rightarrow> cell \<Rightarrow> row \<Rightarrow> row" where
  "row_set k v r =
     (if k \<in> fst ` set r then map (\<lambda>(k', v'). (k', if k' = k then v else v')) r
      else r @ [(k, v)])"

text \<open>\<open>df[col]\<close>: the column as a list of cells, KeyError when there is no such column.\<close>

definition get_column :: "string \<Rightarrow> dataframe \<Rightarrow> error + cell list" where
  "get_column col df =
     (if col \<in> set (columns df)
      then Inr (map (\<lambda>r. case map_of r col of None \<Rightarrow> NaT | Some c \<Rightarrow> c) (rows df))
      else Inl KeyError)"

text \<open>\<open>df[col] = values\<close>: replaces the column in place, or appends it as a new last column.\<close>

definition set_column :: "string \<Rightarrow> cell list \<Rightarrow> dataframe \<Rightarrow> dataframe" where
  "set_column col vals df =
     df\<lparr>columns := (if col \<in> set (columns df) then columns df else columns df @ [col]),
        rows := map (\<lambda>(v, r). row_set col v r) (zip vals (rows df))\<rparr>"

subsection \<open>\<^verbatim>\<open>pd.to_datetime\<close>\<close>

text \<open>
  The date parsing of pandas is a parameter with three parts. pandas 2 fixes one format
  for a whole column: it looks for the first value of the column that is neither missing
  nor a string it passes over (\<open>skipped\<close>: the empty string, the spellings of NaT, \<open>now\<close>,
  \<open>today\<close>); when that value is a string, the format is the one guessed from it
  (\<open>guess_format\<close>). Every string of the column is then parsed with that format, or by
  itself with the general parser when there is no format (\<open>parse_with\<close>). A string is
  refused (pandas raises ValueError), denotes the missing value, or denotes an instant.
  Values that are datetimes already are returned as they are.
\<close>

datatype parse_result = Unparseable | Missing | Instant int

record parser =
  skipped :: "string \<Rightarrow> bool"
  guess_format :: "string \<Rightarrow> string option"
  parse_with :: "string option \<Rightarrow> string \<Rightarrow> parse_result"

fun first_value :: "parser \<Rightarrow> cell list \<Rightarrow> cell option" where
  "first_value p [] = None"
| "first_value p (NaT # cs) = first_value p cs"
| "first_value p (Str s # cs) = (if skipped p s then first_value p cs else Some (Str s))"
| "first_value p (TS t # cs) = Some (TS t)"

definition column_format :: "parser \<Rightarrow> cell list \<Rightarrow> string option" where
  "column_format p cs = (case first_value p cs of Some (Str s) \<Rightarrow> guess_format p s | _ \<Rightarrow> None)"

fun to_datetime_cell :: "parser \<Rightarrow> string option \<Rightarrow> cell \<Rightarrow> error + cell" where
  "to_datetime_cell p fmt (Str s) =
     (case parse_with p fmt s of
        Unparseable \<Rightarrow> Inl ValueError
      | Missing \<Rightarrow> Inr NaT
      | Instant t \<Rightarrow> Inr (TS t))"
| "to_datetime_cell p fmt (TS t) = Inr (TS t)"
| "to_datetime_cell p fmt NaT = Inr NaT"

fun to_datetime_cells :: "parser \<Rightarrow> string option \<Rightarrow> cell list \<Rightarrow> error + cell list" where
  "to_datetime_cells p fmt [] = Inr []"
| "to_datetime_cells p fmt (c # cs) =
     (case to_datetime_cell p fmt c of
        Inl e \<Rightarrow> Inl e
      | Inr c' \<Rightarrow>
          (case to_datetime_cells p fmt cs of Inl e \<Rightarrow> Inl e | Inr cs' \<Rightarrow> Inr (c' # cs')))"

definition to_datetime :: "parser \<Rightarrow> cell list \<Rightarrow> error + cell list" where
  "to_datetime p cs = to_datetime_cells p (column_format p cs) cs"

subsection \<open>\<^verbatim>\<open>pd.date_range(start, end, inclusive='left')\<close>\<close>

text \<open>The default frequency is one day, a fixed span of 24 hours in nanoseconds.\<close>

definition day :: int where
  "day = 86400000000000"

text \<open>
  pandas (1.4 up to 3.0) first generates the closed range \<open>start, start + 1 day, ...\<close> up
  to \<open>end\<close>. When \<open>start\<close> and \<open>end\<close> are equal it trims the range only for
  \<open>inclusive='neither'\<close>, so \<open>inclusive='left'\<close> keeps the single instant. Otherwise, for
  \<open>inclusive='left'\<close>, it drops the last instant when that equals \<open>end\<close>.
\<close>

function closed_range :: "int \<Rightarrow> int \<Rightarrow> int list" where
  "closed_range s e = (if s \<le> e then s # closed_range (s + day) e else [])"
  by pat_completeness auto
termination
  by (relation "measure (\<lambda>(s, e). nat (e - s + 1))") (auto simp: day_def)

declare closed_range.simps [simp del]

definition drop_right_end :: "int \<Rightarrow> int list \<Rightarrow> int list" where
  "drop_right_end e xs = (if xs \<noteq> [] \<and> last xs = e then butlast xs else xs)"

definition left_range :: "int \<Rightarrow> int \<Rightarrow> int list" where
  "left_range s e =
     (let values = closed_range s e in if s = e then values else drop_right_end e values)"

text \<open>
  Both end points go through the Timestamp constructor, which parses a string by itself;
  a range with a missing end point is refused with ValueError.
\<close>

definition date_range_left :: "parser \<Rightarrow> cell \<Rightarrow> cell \<Rightarrow> error + int list" where
  "date_range_left p a d =
     (case to_datetime_cell p None a of
        Inl e \<Rightarrow> Inl e
      | Inr a' \<Rightarrow>
        (case to_datetime_cell p None d of
           Inl e \<Rightarrow> Inl e
         | Inr d' \<Rightarrow>
           (case (a', d') of
              (TS s, TS e) \<Rightarrow> Inr (left_range s e)
            | _ \<Rightarrow> Inl ValueError)))"

subsection \<open>\<^verbatim>\<open>expand_reservations_to_daily\<close>\<close>

text \<open>
  The loop over \<open>df.iterrows()\<close>: the accumulator is the list \<open>daily_records\<close>. Each date of
  the range appends a copy of the row with the label \<open>date\<close> set.
\<close>

fun expand_loop :: "parser \<Rightarrow> string \<Rightarrow> string \<Rightarrow> row list \<Rightarrow> row list \<Rightarrow> error + row list" where
  "expand_loop p ac dc [] daily_records = Inr daily_records"
| "expand_loop p ac dc (r # rs) daily_records =
     (case row_get r ac of
        Inl e \<Rightarrow> Inl e
      | Inr a \<Rightarrow>
        (case row_get r dc of
           Inl e \<Rightarrow> Inl e
         | Inr d \<Rightarrow>
           (case date_range_left p a d of
              Inl e \<Rightarrow> Inl e
            | Inr date_range \<Rightarrow>
                expand_loop p ac dc rs
                  (daily_records @ map (\<lambda>t. row_set ''date'' (TS t) r) date_range))))"

text \<open>
  \<open>pd.DataFrame(daily_records)\<close>: the columns are the labels of the records; a frame built
  from no record has no column at all.
\<close>

definition DataFrame :: "row list \<Rightarrow> dataframe" where
  "DataFrame recs =
     \<lparr>columns = (case recs of [] \<Rightarrow> [] | r # _ \<Rightarrow> map fst r), rows = recs\<rparr>"

text \<open>
  The function assigns to two columns of its argument, so the model returns the caller's
  frame as the call leaves it, paired with the result or the exception.
\<close>

definition expand_reservations_to_daily ::
    "parser \<Rightarrow> dataframe \<Rightarrow> string \<Rightarrow> string \<Rightarrow> dataframe \<times> (error + dataframe)" where
  "expand_reservations_to_daily p df arrival_col departure_col =
     (case get_column arrival_col df of
        Inl e \<Rightarrow> (df, Inl e)
      | Inr a_raw \<Rightarrow>
        (case to_datetime p a_raw of
           Inl e \<Rightarrow> (df, Inl e)
         | Inr a_vals \<Rightarrow>
           (let df1 = set_column arrival_col a_vals df in
            case get_column departure_col df1 of
              Inl e \<Rightarrow> (df1, Inl e)
            | Inr d_raw \<Rightarrow>
              (case to_datetime p d_raw of
                 Inl e \<Rightarrow> (df1, Inl e)
               | Inr d_vals \<Rightarrow>
                 (let df2 = set_column departure_col d_vals df1 in
                  case expand_loop p arrival_col departure_col (rows df2) [] of
                    Inl e \<Rightarrow> (df2, Inl e)
                  | Inr daily_records \<Rightarrow> (df2, Inr (DataFrame daily_records)))))))"

subsection \<open>\<^verbatim>\<open>aggregate_daily_occupancy\<close>\<close>

text \<open>
  The order in which the group-by lists its keys: Timestamps by their instant, before
  strings in lexicographic order, before the missing value.
\<close>

fun cell_key :: "cell \<Rightarrow> nat \<times> int \<times> string" where
  "cell_key (TS t) = (0, t, [])"
| "cell_key (Str s) = (1, 0, s)"
| "cell_key NaT = (2, 0, [])"

text \<open>
  \<open>groupby('date').size()\<close>: rows whose key is missing are dropped; every other distinct key
  is listed once, in key order, with the number of rows that carry it.
\<close>

definition group_sizes :: "cell list \<Rightarrow> (cell \<times> nat) list" where
  "group_sizes ks =
     (let present = filter (\<lambda>k. k \<noteq> NaT) ks
      in map (\<lambda>k. (k, count_list present k)) (sort_key cell_key (remdups present)))"

text \<open>
  \<open>sort_values('date')\<close> compares the dates with Python's \<open><\<close>, which is defined between
  two Timestamps and between two strings and raises TypeError between a Timestamp and a
  string. The sort is stable.
\<close>

fun cell_less :: "cell \<Rightarrow> cell \<Rightarrow> bool" where
  "cell_less (TS a) (TS b) \<longleftrightarrow> a < b"
| "cell_less (Str s) (Str t) \<longleftrightarrow> s < t"
| "cell_less _ _ \<longleftrightarrow> False"

fun is_timestamp :: "cell \<Rightarrow> bool" where
  "is_timestamp (TS t) = True"
| "is_timestamp _ = False"

fun is_string :: "cell \<Rightarrow> bool" where
  "is_string (Str s) = True"
| "is_string _ = False"

definition comparable :: "cell list \<Rightarrow> bool" where
  "comparable ks \<longleftrightarrow> list_all is_timestamp ks \<or> list_all is_string ks"

definition sort_values :: "(cell \<times> nat) list \<Rightarrow> error + (cell \<times> nat) list" where
  "sort_values occupancy =
     (if comparable (map fst occupancy) then Inr (sort_key (\<lambda>e. cell_key (fst e)) occupancy)
      else Inl TypeError)"

text \<open>
  The result is the frame of the two columns \<open>date\<close> and \<open>occupancy\<close>, modelled as the list
  of its rows. A frame without a \<open>date\<close> column makes the group-by raise KeyError.
\<close>

definition aggregate_daily_occupancy :: "dataframe \<Rightarrow> error + (cell \<times> nat) list" where
  "aggregate_daily_occupancy daily_df =
     (case get_column ''date'' daily_df of
        Inl e \<Rightarrow> Inl e
      | Inr dates \<Rightarrow> sort_values (group_sizes dates))"

subsection \<open>The frame after a column assignment\<close>

text \<open>
  The vocabulary of the statements below. \<open>column_cells\<close> is the column as \<open>df[col]\<close> reads
  it. \<open>converted p col df\<close> is the frame \<open>df\<close> in which each cell of the column \<open>col\<close> is
  replaced by its \<open>pd.to_datetime\<close> value, under the format of that column, and nothing
  else is touched. \<open>parses p col df\<close> says that \<open>pd.to_datetime(df[col])\<close> returns: the column
  exists and none of its strings is refused. A Timestamp is a calendar date when it has
  no time of day.
\<close>

definition column_cells :: "string \<Rightarrow> dataframe \<Rightarrow> cell list" where
  "column_cells col df = map (\<lambda>r. case map_of r col of None \<Rightarrow> NaT | Some c \<Rightarrow> c) (rows df)"

definition convert_cell :: "parser \<Rightarrow> string option \<Rightarrow> cell \<Rightarrow> cell" where
  "convert_cell p fmt c = (case to_datetime_cell p fmt c of Inl e \<Rightarrow> c | Inr c' \<Rightarrow> c')"

definition convert_column :: "parser \<Rightarrow> string option \<Rightarrow> string \<Rightarrow> row \<Rightarrow> row" where
  "convert_column p fmt col r =
     map (\<lambda>(k, v). (k, if k = col then convert_cell p fmt v else v)) r"

definition converted :: "parser \<Rightarrow> string \<Rightarrow> dataframe \<Rightarrow> dataframe" where
  "converted p col df =
     df\<lparr>rows := map (convert_column p (column_format p (column_cells col df)) col) (rows df)\<rparr>"

definition parses :: "parser \<Rightarrow> string \<Rightarrow> dataframe \<Rightarrow> bool" where
  "parses p col df =
     (case get_column col df of
        Inl e \<Rightarrow> False
      | Inr cs \<Rightarrow> (case to_datetime p cs of Inl e \<Rightarrow> False | Inr vs \<Rightarrow> True))"

definition is_date :: "int \<Rightarrow> bool" where
  "is_date t \<longleftrightarrow> t mod day = 0"

section \<open>Data model of \<^verbatim>\<open>forecasting.py\<close>\<close>

subsection \<open>\<^verbatim>\<open>decompose_time_series\<close>\<close>

text \<open>
  \<open>seasonal_decompose\<close> belongs to statsmodels, not to this repository: it is a parameter
  that takes the series, the model kind and the period, and returns the decomposition
  object or raises. The function returns a dict, modelled as the list of its items.
\<close>

record 's decompose_result =
  trend :: 's
  seasonal :: 's
  resid :: 's
  observed :: 's

type_synonym 's seasonal_decompose = "'s \<Rightarrow> string \<Rightarrow> int \<Rightarrow> error + 's decompose_result"

definition decompose_time_series ::
    "'s seasonal_decompose \<Rightarrow> 's \<Rightarrow> int \<Rightarrow> string \<Rightarrow> error + (string \<times> 's) list" where
  "decompose_time_series seasonal_decompose series freq model =
     (case seasonal_decompose series model freq of
        Inl e \<Rightarrow> Inl e
      | Inr decomposition \<Rightarrow>
          Inr [(''trend'', trend decomposition),
               (''seasonal'', seasonal decomposition),
               (''residual'', resid decomposition),
               (''observed'', observed decomposition)])"

subsection \<open>\<^verbatim>\<open>forecast_future\<close>\<close>

text \<open>
  The model is any object with a \<open>predict\<close> method (pmdarima's fitted ARIMA in the
  pipeline): the method takes \<open>n_periods\<close> and \<open>return_conf_int\<close> and returns the pair of the
  forecasts and the confidence intervals, or raises.
\<close>

record ('f, 'c) fitted_model =
  predict :: "int \<Rightarrow> bool \<Rightarrow> error + ('f \<times> 'c)"

definition forecast_future :: "('f, 'c) fitted_model \<Rightarrow> int \<Rightarrow> error + ('f \<times> 'c)" where
  "forecast_future model n_periods =
     (case predict model n_periods True of
        Inl e \<Rightarrow> Inl e
      | Inr (forecast, conf_int) \<Rightarrow> Inr (forecast, conf_int))"

subsection \<open>Floating-point values\<close>

text \<open>
  A float is a finite number, an infinity or NaN. The rounding of a finite result is the
  parameter \<open>rnd\<close>; overflow of a finite result and the sign of zero are not modelled (a
  non-zero number divided by zero gives the infinity of the sign of the numerator). The
  special values follow IEEE 754.
\<close>

datatype fl = Fin real | PInf | NInf | NaN

fun fl_add :: "(real \<Rightarrow> real) \<Rightarrow> fl \<Rightarrow> fl \<Rightarrow> fl" where
  "fl_add rnd NaN y = NaN"
| "fl_add rnd x NaN = NaN"
| "fl_add rnd (Fin a) (Fin b) = Fin (rnd (a + b))"
| "fl_add rnd PInf NInf = NaN"
| "fl_add rnd NInf PInf = NaN"
| "fl_add rnd PInf y = PInf"
| "fl_add rnd x PInf = PInf"
| "fl_add rnd NInf y = NInf"
| "fl_add rnd x NInf = NInf"

fun fl_sub :: "(real \<Rightarrow> real) \<Rightarrow> fl \<Rightarrow> fl \<Rightarrow> fl" where
  "fl_sub rnd NaN y = NaN"
| "fl_sub rnd x NaN = NaN"
| "fl_sub rnd (Fin a) (Fin b) = Fin (rnd (a - b))"
| "fl_sub rnd PInf PInf = NaN"
| "fl_sub rnd NInf NInf = NaN"
| "fl_sub rnd PInf y = PInf"
| "fl_sub rnd x PInf = NInf"
| "fl_sub rnd NInf y = NInf"
| "fl_sub rnd x NInf = PInf"

fun fl_mul :: "(real \<Rightarrow> real) \<Rightarrow> fl \<Rightarrow> fl \<Rightarrow> fl" where
  "fl_mul rnd NaN y = NaN"
| "fl_mul rnd x NaN = NaN"
| "fl_mul rnd (Fin a) (Fin b) = Fin (rnd (a * b))"
| "fl_mul rnd (Fin a) PInf = (if a = 0 then NaN else if 0 < a then PInf else NInf)"
| "fl_mul rnd (Fin a) NInf = (if a = 0 then NaN else if 0 < a then NInf else PInf)"
| "fl_mul rnd PInf (Fin b) = (if b = 0 then NaN else if 0 < b then PInf else NInf)"
| "fl_mul rnd NInf (Fin b) = (if b = 0 then NaN else if 0 < b then NInf else PInf)"
| "fl_mul rnd PInf PInf = PInf"
| "fl_mul rnd NInf NInf = PInf"
| "fl_mul rnd PInf NInf = NInf"
| "fl_mul rnd NInf PInf = NInf"

fun fl_div :: "(real \<Rightarrow> real) \<Rightarrow> fl \<Rightarrow> fl \<Rightarrow> fl" where
  "fl_div rnd NaN y = NaN"
| "fl_div rnd x NaN = NaN"
| "fl_div rnd (Fin a) (Fin b) =
     (if b \<noteq> 0 then Fin (rnd (a / b))
      else if a = 0 then NaN else if 0 < a then PInf else NInf)"
| "fl_div rnd (Fin a) y = Fin 0"
| "fl_div rnd PInf (Fin b) = (if 0 \<le> b then PInf else NInf)"
| "fl_div rnd NInf (Fin b) = (if 0 \<le> b then NInf else PInf)"
| "fl_div rnd x y = NaN"

fun fl_abs :: "fl \<Rightarrow> fl" where
  "fl_abs (Fin a) = Fin \<bar>a\<bar>"
| "fl_abs PInf = PInf"
| "fl_abs NInf = PInf"
| "fl_abs NaN = NaN"

fun fl_sqrt :: "(real \<Rightarrow> real) \<Rightarrow> fl \<Rightarrow> fl" where
  "fl_sqrt rnd (Fin a) = (if 0 \<le> a then Fin (rnd (sqrt a)) else NaN)"
| "fl_sqrt rnd PInf = PInf"
| "fl_sqrt rnd x = NaN"

fun is_finite :: "fl \<Rightarrow> bool" where
  "is_finite (Fin a) = True"
| "is_finite _ = False"

subsection \<open>\<^verbatim>\<open>evaluate_model\<close>\<close>

text \<open>
  The sequences are the values of two Series with the same index. \<open>np.mean\<close> of a numpy
  array (the means inside scikit-learn) is the sum over the count; \<open>np.mean\<close> of a pandas
  Series is the Series' own \<open>mean\<close>, which leaves the NaN entries out and is NaN when
  nothing is left. Sums run from left to right.
\<close>

definition fl_sum :: "(real \<Rightarrow> real) \<Rightarrow> fl list \<Rightarrow> fl" where
  "fl_sum rnd xs = foldl (fl_add rnd) (Fin 0) xs"

definition array_mean :: "(real \<Rightarrow> real) \<Rightarrow> fl list \<Rightarrow> fl" where
  "array_mean rnd xs = fl_div rnd (fl_sum rnd xs) (Fin (real (length xs)))"

definition series_mean :: "(real \<Rightarrow> real) \<Rightarrow> fl list \<Rightarrow> fl" where
  "series_mean rnd xs =
     (let kept = filter (\<lambda>x. x \<noteq> NaN) xs
      in if kept = [] then NaN else fl_div rnd (fl_sum rnd kept) (Fin (real (length kept))))"

text \<open>
  scikit-learn validates the two targets before it computes a metric: ValueError for
  sequences of different lengths, for an empty sequence and for an infinite or NaN entry.
\<close>

definition check_targets :: "fl list \<Rightarrow> fl list \<Rightarrow> error + unit" where
  "check_targets y_true y_pred =
     (if length y_true \<noteq> length y_pred \<or> y_true = []
         \<or> \<not> list_all is_finite y_true \<or> \<not> list_all is_finite y_pred
      then Inl ValueError else Inr ())"

definition mean_absolute_error :: "(real \<Rightarrow> real) \<Rightarrow> fl list \<Rightarrow> fl list \<Rightarrow> error + fl" where
  "mean_absolute_error rnd y_true y_pred =
     (case check_targets y_true y_pred of
        Inl e \<Rightarrow> Inl e
      | Inr _ \<Rightarrow>
          Inr (array_mean rnd (map (\<lambda>(t, p). fl_abs (fl_sub rnd p t)) (zip y_true y_pred))))"

definition mean_squared_error :: "(real \<Rightarrow> real) \<Rightarrow> fl list \<Rightarrow> fl list \<Rightarrow> error + fl" where
  "mean_squared_error rnd y_true y_pred =
     (case check_targets y_true y_pred of
        Inl e \<Rightarrow> Inl e
      | Inr _ \<Rightarrow>
          Inr (array_mean rnd
                 (map (\<lambda>(t, p). fl_mul rnd (fl_sub rnd t p) (fl_sub rnd t p)) (zip y_true y_pred))))"

text \<open>Line 128: \<open>np.mean(np.abs((actual - predicted) / actual)) * 100\<close>.\<close>

definition mape_of :: "(real \<Rightarrow> real) \<Rightarrow> fl list \<Rightarrow> fl list \<Rightarrow> fl" where
  "mape_of rnd actual predicted =
     fl_mul rnd
       (series_mean rnd
          (map (\<lambda>(a, p). fl_abs (fl_div rnd (fl_sub rnd a p) a)) (zip actual predicted)))
       (Fin 100)"

record evaluation_metrics =
  MAE :: fl
  RMSE :: fl
  MAPE :: fl

definition evaluate_model :: "(real \<Rightarrow> real) \<Rightarrow> fl list \<Rightarrow> fl list \<Rightarrow> error + evaluation_metrics" where
  "evaluate_model rnd actual predicted =
     (case mean_absolute_error rnd actual predicted of
        Inl e \<Rightarrow> Inl e
      | Inr mae \<Rightarrow>
        (case mean_squared_error rnd actual predicted of
           Inl e \<Rightarrow> Inl e
         | Inr mse \<Rightarrow>
           (let rmse = fl_sqrt rnd mse;
                mape = mape_of rnd actual predicted
            in Inr \<lparr>MAE = mae, RMSE = rmse, MAPE = mape\<rparr>)))"

section \<open>Small booking tables\<close>

text \<open>
  The inputs at which the theorems below are instantiated. The parser passes over the
  empty string, guesses the format year-month-day from a string of ten characters, and
  knows the two dates 2024-01-01 and 2024-01-03, at midnight, under any format. The
  first reservation of \<open>bookings\<close> is read from strings and stays two nights; the second
  holds Timestamps already and leaves on the day it arrives. \<open>same_day_bookings\<close> has only
  a reservation of the second kind. The reservation of \<open>reversed_bookings\<close> leaves two days
  before it arrives, and the one of \<open>open_bookings\<close> has no departure.
\<close>

definition iso_parser :: parser where
  "iso_parser =
     \<lparr>skipped = (\<lambda>s. s = []),
      guess_format = (\<lambda>s. if length s = 10 then Some ''%Y-%m-%d'' else None),
      parse_with = (\<lambda>fmt s.
        if s = ''2024-01-01'' then Instant 1704067200000000000
        else if s = ''2024-01-03'' then Instant 1704240000000000000
        else if s = [] then Missing
        else Unparseable)\<rparr>"

definition bookings :: dataframe where
  "bookings =
     \<lparr>columns = [''arrival_date'', ''departure_date'', ''guest''],
      rows = [[(''arrival_date'', Str ''2024-01-01''), (''departure_date'', Str ''2024-01-03''),
               (''guest'', Str ''ann'')],
              [(''arrival_date'', TS 1704240000000000000),
               (''departure_date'', TS 1704240000000000000), (''guest'', Str ''bob'')]]\<rparr>"

definition same_day_bookings :: dataframe where
  "same_day_bookings =
     \<lparr>columns = [''arrival_date'', ''departure_date'', ''guest''],
      rows = [[(''arrival_date'', TS 1704240000000000000),
               (''departure_date'', TS 1704240000000000000), (''guest'', Str ''bob'')]]\<rparr>"

definition reversed_bookings :: dataframe where
  "reversed_bookings =
     \<lparr>columns = [''arrival_date'', ''departure_date'', ''guest''],
      rows = [[(''arrival_date'', Str ''2024-01-03''), (''departure_date'', Str ''2024-01-01''),
               (''guest'', Str ''cyd'')]]\<rparr>"

definition open_bookings :: dataframe where
  "open_bookings =
     \<lparr>columns = [''arrival_date'', ''departure_date'', ''guest''],
      rows = [[(''arrival_date'', Str ''2024-01-01''), (''departure_date'', NaT),
               (''guest'', Str ''dee'')]]\<rparr>"

text \<open>
  \<open>four_nights\<close> is a frame of four daily records on three dates: 2024-01-01 once,
  2024-01-02 twice and 2024-01-03 once, not in date order.
\<close>

definition four_nights :: dataframe where
  "four_nights =
     \<lparr>columns = [''guest'', ''date''],
      rows = [[(''guest'', Str ''bob''), (''date'', TS 1704153600000000000)],
              [(''guest'', Str ''bob''), (''date'', TS 1704240000000000000)],
              [(''guest'', Str ''ann''), (''date'', TS 1704067200000000000)],
              [(''guest'', Str ''ann''), (''date'', TS 1704153600000000000)]]\<rparr>"

section \<open>Properties of the date range\<close>

lemma day_pos: "0 < day"
  by (simp add: day_def)

lemma closed_range_gt: "e < s \<Longrightarrow> closed_range s e = []"
  by (subst closed_range.simps) simp

lemma closed_range_le: "s \<le> e \<Longrightarrow> closed_range s e = s # closed_range (s + day) e"
  by (subst closed_range.simps) simp

lemma dropped_range_empty: "e \<le> s \<Longrightarrow> drop_right_end e (closed_range s e) = []"
proof (cases "s = e")
  case True
  have "closed_range e e = [e]"
    using day_pos by (simp add: closed_range_le closed_range_gt)
  with True show ?thesis by (simp add: drop_right_end_def)
next
  case False
  assume "e \<le> s"
  with False show ?thesis by (simp add: closed_range_gt drop_right_end_def)
qed

lemma drop_right_end_Cons:
  "x \<noteq> e \<Longrightarrow> drop_right_end e (x # xs) = x # drop_right_end e xs"
  by (simp add: drop_right_end_def)

lemma dropped_range_step:
  "s < e \<Longrightarrow>
     drop_right_end e (closed_range s e) = s # drop_right_end e (closed_range (s + day) e)"
  by (simp add: closed_range_le drop_right_end_Cons)

lemma nights_step:
  assumes "s < e"
  shows "nat ((e - s + day - 1) div day) = Suc (nat ((e - (s + day) + day - 1) div day))"
proof -
  have "(e - s + day - 1) div day = (e - s - 1) div day + 1"
    using day_pos by (metis add.commute add_diff_eq div_add_self1 less_irrefl)
  moreover have "0 \<le> (e - s - 1) div day"
    using assms day_pos by (simp add: pos_imp_zdiv_nonneg_iff)
  ultimately show ?thesis by (simp add: algebra_simps nat_add_distrib)
qed

lemma nights_zero:
  assumes "e \<le> s"
  shows "nat ((e - s + day - 1) div day) = 0"
proof -
  have "e - s + day - 1 < day" using assms by simp
  then have "(e - s + day - 1) div day \<le> 0"
    using day_pos
    by (cases "0 \<le> e - s + day - 1")
      (simp_all add: div_pos_pos_trivial pos_imp_zdiv_neg_iff less_imp_le)
  then show ?thesis by simp
qed

text \<open>
  The closed range from \<open>s\<close> to \<open>e\<close> without the end point \<open>e\<close> holds the instants \<open>s + k\<close>
  days below \<open>e\<close>: as many as the span from \<open>s\<close> to \<open>e\<close> has days, a started day counting
  as one.
\<close>

lemma dropped_range_dates:
  "drop_right_end e (closed_range s e) =
     map (\<lambda>k. s + int k * day) [0..<nat ((e - s + day - 1) div day)]"
proof (induction s e rule: closed_range.induct)
  case (1 s e)
  show ?case
  proof (cases "s < e")
    case True
    have "map (\<lambda>k. s + int k * day) [0..<Suc (nat ((e - (s + day) + day - 1) div day))]
        = s # map (\<lambda>k. s + day + int k * day) [0..<nat ((e - (s + day) + day - 1) div day)]"
      by (simp add: upt_conv_Cons map_Suc_upt [symmetric] algebra_simps del: upt_Suc)
    with True 1 show ?thesis
      by (simp add: dropped_range_step nights_step)
  next
    case False
    then show ?thesis by (simp add: dropped_range_empty nights_zero)
  qed
qed

lemma closed_range_self: "closed_range e e = [e]"
  using day_pos by (simp add: closed_range_le closed_range_gt)

text \<open>
  What \<open>inclusive='left'\<close> gives: the single instant for a range from an instant to itself,
  otherwise the instants \<open>s + k\<close> days below \<open>e\<close>.
\<close>

lemma left_range_dates:
  "left_range s e =
     (if s = e then [s] else map (\<lambda>k. s + int k * day) [0..<nat ((e - s + day - 1) div day)])"
  by (simp add: left_range_def closed_range_self dropped_range_dates)

lemma whole_days:
  assumes "is_date a" and "is_date d"
  shows "(d - a + day - 1) div day = (d - a) div day"
proof -
  from assms have "day dvd d" and "day dvd a"
    by (simp_all add: is_date_def mod_eq_0_iff_dvd)
  then have "day dvd d - a" by (rule dvd_diff)
  then obtain q where q: "d - a = day * q" ..
  have "(day * q + (day - 1)) div day = q + (day - 1) div day"
    using day_pos by simp
  moreover have "(day - 1) div day = 0"
    using day_pos by (simp add: div_pos_pos_trivial)
  ultimately show ?thesis
    using q day_pos by (simp add: algebra_simps)
qed

text \<open>
  Between two different calendar dates the range has one instant for each day from the
  first date up to but without the second; from a date to itself it has that date.
\<close>

lemma left_range_nights:
  assumes "is_date a" and "is_date d" and "a \<noteq> d"
  shows "left_range a d = map (\<lambda>k. a + int k * day) [0..<nat ((d - a) div day)]"
  using assms by (simp add: left_range_dates whole_days)

lemma left_range_same_day: "left_range a a = [a]"
  by (simp add: left_range_dates)

lemma date_range_left_TS: "date_range_left p (TS a) (TS d) = Inr (left_range a d)"
  by (simp add: date_range_left_def)

section \<open>The caller's frame after the two column assignments\<close>

lemma to_datetime_cells_Inr:
  "to_datetime_cells p fmt cs = Inr vs \<Longrightarrow> vs = map (convert_cell p fmt) cs"
  by (induction cs arbitrary: vs) (auto simp: convert_cell_def split: sum.splits)

lemma to_datetime_cells_Inl: "to_datetime_cells p fmt cs = Inl e \<Longrightarrow> e = ValueError"
  by (induction cs) (auto split: sum.splits cell.splits parse_result.splits elim: to_datetime_cell.elims)

lemma to_datetime_Inl: "to_datetime p cs = Inl e \<Longrightarrow> e = ValueError"
  by (simp add: to_datetime_def to_datetime_cells_Inl)

lemma map_fst_convert_column [simp]: "map fst (convert_column p fmt col r) = map fst r"
  by (induction r) (auto simp: convert_column_def)

lemma row_set_convert:
  assumes "distinct (map fst r)" and "col \<in> set (map fst r)"
  shows "row_set col (convert_cell p fmt (case map_of r col of None \<Rightarrow> NaT | Some c \<Rightarrow> c)) r
           = convert_column p fmt col r"
proof -
  have "\<And>k v. (k, v) \<in> set r \<Longrightarrow> k = col \<Longrightarrow> map_of r col = Some v"
    using assms(1) by simp
  then have "map (\<lambda>(k', v'). (k', if k' = col
                 then convert_cell p fmt (case map_of r col of None \<Rightarrow> NaT | Some c \<Rightarrow> c)
                 else v')) r
           = map (\<lambda>(k, v). (k, if k = col then convert_cell p fmt v else v)) r"
    by (intro map_cong) auto
  with assms(2) show ?thesis
    by (simp add: row_set_def convert_column_def)
qed

lemma wf_frame_row:
  "wf_frame df \<Longrightarrow> r \<in> set (rows df) \<Longrightarrow> distinct (map fst r) \<and> map fst r = columns df"
  by (auto simp: wf_frame_def list_all_iff)

lemma get_column_cells:
  "get_column col df = (if col \<in> set (columns df) then Inr (column_cells col df) else Inl KeyError)"
  by (simp add: get_column_def column_cells_def)

lemma set_column_converted:
  assumes "wf_frame df" and "col \<in> set (columns df)"
    and "to_datetime p (column_cells col df) = Inr vs"
  shows "set_column col vs df = converted p col df"
proof -
  let ?fmt = "column_format p (column_cells col df)"
  from assms(3) have vs: "vs = map (convert_cell p ?fmt) (column_cells col df)"
    by (simp add: to_datetime_def to_datetime_cells_Inr)
  have "map (\<lambda>(v, r). row_set col v r) (zip vs (rows df))
          = map (\<lambda>r. row_set col
                (convert_cell p ?fmt (case map_of r col of None \<Rightarrow> NaT | Some c \<Rightarrow> c)) r)
              (rows df)"
    unfolding vs column_cells_def by (simp add: zip_map1 zip_same_conv_map o_def)
  also have "\<dots> = map (convert_column p ?fmt col) (rows df)"
    using wf_frame_row [OF assms(1)] assms(1,2)
    by (intro map_cong refl row_set_convert) (auto simp: wf_frame_def)
  finally have "map (\<lambda>(v, r). row_set col v r) (zip vs (rows df))
          = map (convert_column p ?fmt col) (rows df)" .
  with assms(2) show ?thesis
    by (simp add: set_column_def converted_def)
qed

lemma wf_frame_converted: "wf_frame df \<Longrightarrow> wf_frame (converted p col df)"
  by (simp add: wf_frame_def list_all_iff converted_def)

lemma columns_converted [simp]: "columns (converted p col df) = columns df"
  by (simp add: converted_def)

lemma expand_wf:
  assumes "wf_frame df"
  shows "expand_reservations_to_daily p df ac dc =
    (if \<not> parses p ac df then (df, Inl (if ac \<in> set (columns df) then ValueError else KeyError))
     else if \<not> parses p dc (converted p ac df)
       then (converted p ac df, Inl (if dc \<in> set (columns df) then ValueError else KeyError))
     else (converted p dc (converted p ac df),
           case expand_loop p ac dc (rows (converted p dc (converted p ac df))) [] of
             Inl e \<Rightarrow> Inl e
           | Inr daily_records \<Rightarrow> Inr (DataFrame daily_records)))"
proof (cases "ac \<in> set (columns df)")
  case False
  then show ?thesis
    by (simp add: expand_reservations_to_daily_def parses_def get_column_cells)
next
  case ac: True
  show ?thesis
  proof (cases "to_datetime p (column_cells ac df)")
    case (Inl e)
    with ac show ?thesis
      by (simp add: expand_reservations_to_daily_def parses_def get_column_cells
          to_datetime_Inl)
  next
    case a_vals: (Inr a_vals)
    let ?df1 = "converted p ac df"
    have df1: "set_column ac a_vals df = ?df1"
      by (rule set_column_converted [OF assms ac a_vals])
    have wf1: "wf_frame ?df1" by (rule wf_frame_converted [OF assms])
    have p1: "parses p ac df"
      using ac a_vals by (simp add: parses_def get_column_cells)
    show ?thesis
    proof (cases "dc \<in> set (columns df)")
      case False
      with ac a_vals df1 p1 show ?thesis
        by (simp add: expand_reservations_to_daily_def parses_def get_column_cells)
    next
      case dc: True
      then have dc1: "dc \<in> set (columns ?df1)" by simp
      show ?thesis
      proof (cases "to_datetime p (column_cells dc ?df1)")
        case (Inl e)
        with ac a_vals df1 p1 dc show ?thesis
          by (simp add: expand_reservations_to_daily_def parses_def get_column_cells
              to_datetime_Inl)
      next
        case d_vals: (Inr d_vals)
        have df2: "set_column dc d_vals ?df1 = converted p dc ?df1"
          by (rule set_column_converted [OF wf1 dc1 d_vals])
        from ac a_vals df1 p1 dc d_vals df2 show ?thesis
          by (simp add: expand_reservations_to_daily_def parses_def get_column_cells Let_def
              split: sum.splits)
      qed
    qed
  qed
qed

section \<open>The expansion of reservations into daily records\<close>

lemmas frame_eval =
  wf_frame_def DataFrame_def row_set_def row_get_def get_column_def set_column_def
  column_cells_def column_format_def to_datetime_def convert_column_def convert_cell_def
  converted_def parses_def iso_parser_def bookings_def same_day_bookings_def
  reversed_bookings_def open_bookings_def

lemmas range_eval =
  date_range_left_def left_range_dates day_def

text \<open>
  Claim C1 at a reservation that leaves on the day it arrives. The claim asks for no
  daily record, and the comment of line 44 says that the checkout day is excluded; the
  call emits one record, dated that very day, because the range from an instant to
  itself keeps the instant.
\<close>

theorem same_day_stay_emits_checkout_day:
  "snd (expand_reservations_to_daily iso_parser same_day_bookings
          ''arrival_date'' ''departure_date'')
     = Inr \<lparr>columns = [''arrival_date'', ''departure_date'', ''guest'', ''date''],
            rows = [[(''arrival_date'', TS 1704240000000000000),
                     (''departure_date'', TS 1704240000000000000),
                     (''guest'', Str ''bob''), (''date'', TS 1704240000000000000)]]\<rparr>"
  by (simp add: expand_reservations_to_daily_def frame_eval range_eval)

text \<open>
  At the booking table the stay of two nights gives two records, on the day of arrival
  and on the next day, one for each day before the day of departure; the third record is
  the one of the same-day stay.
\<close>

lemma two_nights_emit_two_records:
  "snd (expand_reservations_to_daily iso_parser bookings ''arrival_date'' ''departure_date'')
     = Inr \<lparr>columns = [''arrival_date'', ''departure_date'', ''guest'', ''date''],
            rows = [[(''arrival_date'', TS 1704067200000000000),
                     (''departure_date'', TS 1704240000000000000),
                     (''guest'', Str ''ann''), (''date'', TS 1704067200000000000)],
                    [(''arrival_date'', TS 1704067200000000000),
                     (''departure_date'', TS 1704240000000000000),
                     (''guest'', Str ''ann''), (''date'', TS 1704153600000000000)],
                    [(''arrival_date'', TS 1704240000000000000),
                     (''departure_date'', TS 1704240000000000000),
                     (''guest'', Str ''bob''), (''date'', TS 1704240000000000000)]]\<rparr>"
  by (simp add: expand_reservations_to_daily_def frame_eval range_eval upt_rec)

text \<open>
  Claim C4, as amended. The call changes the caller's frame in the arrival and the
  departure column only, and only by \<open>pd.to_datetime\<close>. Afterwards the frame is the
  original one when the arrival column is missing or does not parse; the original with
  the arrival column converted when the departure column is missing or does not parse;
  and in every other case the original with both columns converted, whether the call
  then returns or raises inside its loop. When the call returns, both are converted.
\<close>

theorem expand_frame_effect:
  assumes "wf_frame df"
  shows "fst (expand_reservations_to_daily p df ac dc) =
      (if \<not> parses p ac df then df
       else if \<not> parses p dc (converted p ac df) then converted p ac df
       else converted p dc (converted p ac df))
    \<and> (\<forall>daily. snd (expand_reservations_to_daily p df ac dc) = Inr daily \<longrightarrow>
          fst (expand_reservations_to_daily p df ac dc)
            = converted p dc (converted p ac df))"
  by (simp add: expand_wf [OF assms])

text \<open>
  Claim C4, as amended, at the booking table: the string dates of the caller's first
  reservation have become Timestamps, and nothing else has changed.
\<close>

theorem expand_frame_effect_witness:
  "wf_frame bookings
   \<and> fst (expand_reservations_to_daily iso_parser bookings ''arrival_date'' ''departure_date'')
       = \<lparr>columns = [''arrival_date'', ''departure_date'', ''guest''],
          rows = [[(''arrival_date'', TS 1704067200000000000),
                   (''departure_date'', TS 1704240000000000000), (''guest'', Str ''ann'')],
                  [(''arrival_date'', TS 1704240000000000000),
                   (''departure_date'', TS 1704240000000000000), (''guest'', Str ''bob'')]]\<rparr>"
proof -
  have wf: "wf_frame bookings"
    by (simp add: frame_eval)
  from expand_frame_effect [OF wf, of iso_parser "''arrival_date''" "''departure_date''"]
  have "fst (expand_reservations_to_daily iso_parser bookings ''arrival_date'' ''departure_date'')
      = (if \<not> parses iso_parser ''arrival_date'' bookings then bookings
         else if \<not> parses iso_parser ''departure_date'' (converted iso_parser ''arrival_date'' bookings)
           then converted iso_parser ''arrival_date'' bookings
         else converted iso_parser ''departure_date'' (converted iso_parser ''arrival_date'' bookings))"
    by (rule conjunct1)
  with wf show ?thesis
    by (simp add: frame_eval)
qed

text \<open>
  Claim C4 as stated fails at the booking table: the caller's frame after the call is not
  the frame before the call.
\<close>

theorem expand_mutates_counterexample:
  "fst (expand_reservations_to_daily iso_parser bookings ''arrival_date'' ''departure_date'')
     \<noteq> bookings"
  by (simp add: expand_reservations_to_daily_def frame_eval range_eval upt_rec)

text \<open>
  A reservation without a departure makes \<open>pd.date_range\<close> raise inside the loop, after
  both columns of the caller's frame were overwritten.
\<close>

lemma expand_raises_after_both_assignments:
  "expand_reservations_to_daily iso_parser open_bookings ''arrival_date'' ''departure_date''
     = (\<lparr>columns = [''arrival_date'', ''departure_date'', ''guest''],
         rows = [[(''arrival_date'', TS 1704067200000000000), (''departure_date'', NaT),
                  (''guest'', Str ''dee'')]]\<rparr>,
        Inl ValueError)"
  by (simp add: expand_reservations_to_daily_def frame_eval range_eval)




text \<open>
  A table of same-day stays is not such an input: the expansion of \<open>same_day_bookings\<close>
  has one row, and the aggregation of that frame returns a series.
\<close>

lemma same_day_stays_are_aggregated:
  "aggregate_daily_occupancy
     \<lparr>columns = [''arrival_date'', ''departure_date'', ''guest'', ''date''],
      rows = [[(''arrival_date'', TS 1704240000000000000),
               (''departure_date'', TS 1704240000000000000),
               (''guest'', Str ''bob''), (''date'', TS 1704240000000000000)]]\<rparr>
     = Inr [(TS 1704240000000000000, 1)]"
  by (simp add: aggregate_daily_occupancy_def get_column_def group_sizes_def sort_values_def
      comparable_def)

section \<open>The aggregation into the occupancy series\<close>

lemma inj_cell_key: "inj cell_key"
proof (rule injI)
  fix x y assume "cell_key x = cell_key y"
  then show "x = y" by (cases x; cases y) simp_all
qed

lemma group_sizes_keys:
  "map fst (group_sizes ks) = sort_key cell_key (remdups (filter (\<lambda>k. k \<noteq> NaT) ks))"
  by (simp add: group_sizes_def Let_def o_def)

lemma group_sizes_sorted:
  "sort_key (\<lambda>e. cell_key (fst e)) (group_sizes ks) = group_sizes ks"
proof (rule sort_key_id_if_sorted)
  have "map (\<lambda>e. cell_key (fst e)) (group_sizes ks) = map cell_key (map fst (group_sizes ks))"
    by (simp add: o_def)
  then show "sorted (map (\<lambda>e. cell_key (fst e)) (group_sizes ks))"
    by (simp only: group_sizes_keys sorted_sort_key)
qed

lemma aggregate_Inr:
  assumes "aggregate_daily_occupancy df = Inr occ"
  shows "\<exists>ks. get_column ''date'' df = Inr ks \<and> occ = group_sizes ks
            \<and> comparable (map fst (group_sizes ks))"
  using assms
  by (auto simp: aggregate_daily_occupancy_def sort_values_def group_sizes_sorted
      split: sum.splits if_splits)

lemma strict_keys:
  "sorted_wrt (\<lambda>x y. cell_key x < cell_key y) (map fst (group_sizes ks))"
proof -
  let ?ks = "sort_key cell_key (remdups (filter (\<lambda>k. k \<noteq> NaT) ks))"
  have "sorted (map cell_key ?ks)"
    by (rule sorted_sort_key)
  moreover have "distinct (map cell_key ?ks)"
    by (simp add: distinct_map inj_on_subset [OF inj_cell_key])
  ultimately have "sorted_wrt (<) (map cell_key ?ks)"
    by (simp only: strict_sorted_iff)
  then show ?thesis
    by (simp only: group_sizes_keys sorted_wrt_map)
qed

lemma comparable_less:
  assumes "comparable ks" and "x \<in> set ks" and "y \<in> set ks" and "cell_key x < cell_key y"
  shows "cell_less x y"
  using assms
  by (cases x; cases y) (auto simp: comparable_def list_all_iff)

text \<open>
  Claim C3. Whenever \<open>aggregate_daily_occupancy\<close> returns a series, its dates are strictly
  ascending from each entry to every later one; so no date occurs twice.
\<close>

theorem occupancy_strictly_ascending:
  assumes "aggregate_daily_occupancy df = Inr occ"
  shows "sorted_wrt cell_less (map fst occ)"
proof -
  from aggregate_Inr [OF assms] obtain ks where
    occ: "occ = group_sizes ks" and cmp: "comparable (map fst (group_sizes ks))"
    by blast
  from strict_keys [of ks] show ?thesis
    unfolding occ
    by (rule sorted_wrt_mono_rel [rotated]) (rule comparable_less [OF cmp])
qed

text \<open>
  Claim C3 at the four daily records: the series has the three dates in ascending order.
\<close>

theorem occupancy_strictly_ascending_witness:
  "aggregate_daily_occupancy four_nights
     = Inr [(TS 1704067200000000000, 1), (TS 1704153600000000000, 2),
            (TS 1704240000000000000, 1)]
   \<and> sorted_wrt cell_less
        (map fst [(TS 1704067200000000000, 1::nat), (TS 1704153600000000000, 2),
                  (TS 1704240000000000000, 1)])"
proof -
  have res: "aggregate_daily_occupancy four_nights
     = Inr [(TS 1704067200000000000, 1), (TS 1704153600000000000, 2),
            (TS 1704240000000000000, 1)]"
    by (simp add: aggregate_daily_occupancy_def get_column_def four_nights_def group_sizes_def
        sort_values_def comparable_def)
  show ?thesis
    by (rule conjI [OF res occupancy_strictly_ascending [OF res]])
qed

lemma group_sizes_timestamps:
  assumes "list_all is_timestamp dates"
  shows "group_sizes dates
           = map (\<lambda>k. (k, count_list dates k)) (sort_key cell_key (remdups dates))"
proof -
  from assms have "filter (\<lambda>k. k \<noteq> NaT) dates = dates"
    by (auto simp: list_all_iff intro!: filter_True)
  then show ?thesis by (simp add: group_sizes_def)
qed

text \<open>
  Claim C2. For a frame of daily records, that is a frame with a \<open>date\<close> column that holds
  a Timestamp in every row, \<open>aggregate_daily_occupancy\<close> returns a series in which no date
  occurs twice, whose dates are exactly the dates of the input, and whose counts add up
  to the number of input records.
\<close>

theorem one_entry_per_date:
  assumes "get_column ''date'' daily_df = Inr dates" and "list_all is_timestamp dates"
  shows "\<exists>occupancy. aggregate_daily_occupancy daily_df = Inr occupancy
           \<and> distinct (map fst occupancy)
           \<and> set (map fst occupancy) = set dates
           \<and> sum_list (map snd occupancy) = length (rows daily_df)"
proof -
  let ?keys = "sort_key cell_key (remdups dates)"
  let ?occ = "map (\<lambda>k. (k, count_list dates k)) ?keys"
  have gs: "group_sizes dates = ?occ"
    by (rule group_sizes_timestamps [OF assms(2)])
  have keys: "map fst ?occ = ?keys"
    by (simp add: o_def)
  have "comparable (map fst ?occ)"
    using assms(2) by (simp add: comparable_def list_all_iff o_def)
  then have "aggregate_daily_occupancy daily_df = Inr ?occ"
    using assms(1) group_sizes_sorted [of dates]
    by (simp add: aggregate_daily_occupancy_def sort_values_def gs)
  moreover have "distinct (map fst ?occ)"
    by (simp only: keys distinct_sort distinct_remdups)
  moreover have "set (map fst ?occ) = set dates"
    by (simp only: keys set_sort set_remdups)
  moreover have "sum_list (map snd ?occ) = length (rows daily_df)"
  proof -
    have "sum_list (map snd ?occ) = sum_list (map (count_list dates) ?keys)"
      by (simp add: o_def)
    also have "\<dots> = sum (count_list dates) (set ?keys)"
      by (rule sum_list_distinct_conv_sum_set) simp
    also have "\<dots> = length dates"
      by (simp add: sum_count_set)
    also have "\<dots> = length (rows daily_df)"
      using assms(1) by (auto simp: get_column_def split: if_splits)
    finally show ?thesis .
  qed
  ultimately show ?thesis by blast
qed

text \<open>
  Claim C2 at the four daily records.
\<close>

theorem one_entry_per_date_witness:
  "get_column ''date'' four_nights
     = Inr [TS 1704153600000000000, TS 1704240000000000000,
            TS 1704067200000000000, TS 1704153600000000000]
   \<and> list_all is_timestamp [TS 1704153600000000000, TS 1704240000000000000,
                            TS 1704067200000000000, TS 1704153600000000000]
   \<and> (\<exists>occupancy. aggregate_daily_occupancy four_nights = Inr occupancy
           \<and> distinct (map fst occupancy)
           \<and> set (map fst occupancy)
               = set [TS 1704153600000000000, TS 1704240000000000000,
                      TS 1704067200000000000, TS 1704153600000000000]
           \<and> sum_list (map snd occupancy) = length (rows four_nights))"
  using one_entry_per_date [of four_nights
      "[TS 1704153600000000000, TS 1704240000000000000,
        TS 1704067200000000000, TS 1704153600000000000]"]
  by (simp add: get_column_def four_nights_def)

section \<open>The forecasting module\<close>

text \<open>
  Claim C5, as amended. \<open>forecast_future\<close> checks nothing about the horizon: for every model
  and every \<open>n_periods\<close>, positive or not, it returns what the model's \<open>predict\<close> returns for
  \<open>n_periods\<close> with \<open>return_conf_int=True\<close>, and it fails exactly as \<open>predict\<close> fails.
\<close>

theorem forecast_future_delegates:
  "forecast_future model n_periods = predict model n_periods True"
  by (simp add: forecast_future_def split: sum.splits prod.splits)

text \<open>
  Claim C5 as stated fails: with a model whose \<open>predict\<close> refuses a horizon below one with
  ValueError, the horizon 0 makes \<open>forecast_future\<close> fail with that ValueError, not with
  InvalidHorizonError.
\<close>

theorem forecast_future_horizon_counterexample:
  "(0::int) \<le> 0 \<and>
   forecast_future
     \<lparr>predict = (\<lambda>n c. if n \<le> 0 then Inl ValueError
                        else Inr (replicate (nat n) (0::real), replicate (nat n) (0::real, 0::real)))\<rparr>
     0 \<noteq> Inl InvalidHorizonError"
  by (simp add: forecast_future_def InvalidHorizonError_def)

text \<open>
  Claim C7, as amended. \<open>decompose_time_series\<close> has no length check of its own: it fails
  exactly when the library's \<open>seasonal_decompose\<close> fails on the same series, model kind and
  period, and with the same error.
\<close>

theorem decompose_fails_as_library:
  "decompose_time_series sd series freq model = Inl e \<longleftrightarrow> sd series model freq = Inl e"
  by (simp add: decompose_time_series_def split: sum.splits)

text \<open>
  Claim C7 as stated fails: with a \<open>seasonal_decompose\<close> that refuses fewer than two full
  periods with ValueError, as statsmodels does, the empty series with period 7 fails with
  ValueError, not with InsufficientDataError.
\<close>

theorem decompose_short_counterexample:
  "int (length ([] :: real list)) \<le> 2 * 7 \<and>
   decompose_time_series
     (\<lambda>x m period. if int (length x) < 2 * period then Inl ValueError
                    else Inr \<lparr>trend = x, seasonal = x, resid = x, observed = x\<rparr>)
     ([] :: real list) 7 ''additive'' \<noteq> Inl InsufficientDataError"
  by (simp add: decompose_time_series_def InsufficientDataError_def)

section \<open>The evaluation metrics\<close>

lemma check_targets_finite:
  "length a = length p \<Longrightarrow> a \<noteq> [] \<Longrightarrow> check_targets (map Fin a) (map Fin p) = Inr ()"
  by (simp add: check_targets_def list_all_iff)

lemma zip_Fin:
  "zip (map Fin a) (map Fin p) = map (\<lambda>(x, y). (Fin x, Fin y)) (zip a p)"
  by (simp add: zip_map_map)

lemma fl_sum_zeros:
  assumes "rnd 0 = 0"
  shows "fl_sum rnd (replicate n (Fin 0)) = Fin 0"
proof -
  have "foldl (fl_add rnd) (Fin 0) (replicate n (Fin 0)) = Fin 0"
    using assms by (induction n) simp_all
  then show ?thesis by (simp add: fl_sum_def)
qed

lemma array_mean_zeros:
  assumes "rnd 0 = 0" and "0 < n"
  shows "array_mean rnd (replicate n (Fin 0)) = Fin 0"
  using assms by (simp add: array_mean_def fl_sum_zeros)

lemma series_mean_zeros:
  assumes "rnd 0 = 0" and "0 < n"
  shows "series_mean rnd (replicate n (Fin 0)) = Fin 0"
  using assms by (simp add: series_mean_def fl_sum_zeros)

text \<open>
  Claim C9. For a non-empty sequence \<open>x\<close> of finite numbers none of which is zero,
  \<open>evaluate_model(x, x)\<close> returns MAE, RMSE and MAPE all equal to zero, in any float format
  that represents zero.
\<close>

theorem evaluate_model_self:
  assumes "rnd 0 = 0" and "x \<noteq> []" and "0 \<notin> set x"
  shows "evaluate_model rnd (map Fin x) (map Fin x)
           = Inr \<lparr>MAE = Fin 0, RMSE = Fin 0, MAPE = Fin 0\<rparr>"
proof -
  have n: "0 < length x" using assms(2) by simp
  have pairs: "zip (map Fin x) (map Fin x) = map (\<lambda>v. (Fin v, Fin v)) x"
    by (simp add: zip_map_map zip_same_conv_map)
  have abs_terms: "map (\<lambda>(t, p). fl_abs (fl_sub rnd p t)) (zip (map Fin x) (map Fin x))
      = replicate (length x) (Fin 0)"
    using assms(1) by (simp add: pairs o_def map_replicate_const)
  have sq_terms: "map (\<lambda>(t, p). fl_mul rnd (fl_sub rnd t p) (fl_sub rnd t p))
        (zip (map Fin x) (map Fin x)) = replicate (length x) (Fin 0)"
    using assms(1) by (simp add: pairs o_def map_replicate_const)
  have "map (\<lambda>(a, p). fl_abs (fl_div rnd (fl_sub rnd a p) a)) (zip (map Fin x) (map Fin x))
      = map (\<lambda>v. Fin 0) x"
    unfolding pairs map_map o_def
    by (rule map_cong [OF refl]) (use assms(1,3) in auto)
  then have pct_terms: "map (\<lambda>(a, p). fl_abs (fl_div rnd (fl_sub rnd a p) a))
        (zip (map Fin x) (map Fin x)) = replicate (length x) (Fin 0)"
    by (simp add: map_replicate_const)
  have mae: "mean_absolute_error rnd (map Fin x) (map Fin x) = Inr (Fin 0)"
    using assms(1,2) n
    by (simp add: mean_absolute_error_def check_targets_finite abs_terms array_mean_zeros)
  have mse: "mean_squared_error rnd (map Fin x) (map Fin x) = Inr (Fin 0)"
    using assms(1,2) n
    by (simp add: mean_squared_error_def check_targets_finite sq_terms array_mean_zeros)
  have mape: "mape_of rnd (map Fin x) (map Fin x) = Fin 0"
    using assms(1) n by (simp add: mape_of_def pct_terms series_mean_zeros)
  show ?thesis
    using assms(1) by (simp add: evaluate_model_def mae mse mape)
qed

text \<open>
  Claim C9 at the sequence 10, 20, 30, with exact arithmetic.
\<close>

theorem evaluate_model_self_witness:
  "(\<lambda>v::real. v) 0 = 0 \<and> [10, 20, 30 :: real] \<noteq> [] \<and> 0 \<notin> set [10, 20, 30 :: real]
   \<and> evaluate_model (\<lambda>v. v) (map Fin [10, 20, 30]) (map Fin [10, 20, 30])
       = Inr \<lparr>MAE = Fin 0, RMSE = Fin 0, MAPE = Fin 0\<rparr>"
  using evaluate_model_self [of "\<lambda>v. v" "[10, 20, 30]"]
  by simp

lemma pct_term:
  "fl_abs (fl_div rnd (fl_sub rnd (Fin a) (Fin p)) (Fin a))
     = (if a \<noteq> 0 then Fin \<bar>rnd (rnd (a - p) / a)\<bar>
        else if rnd (a - p) = 0 then NaN else PInf)"
  by simp

lemma foldl_from_PInf:
  "list_all (\<lambda>x. is_finite x \<or> x = PInf) xs \<Longrightarrow> foldl (fl_add rnd) PInf xs = PInf"
proof (induction xs)
  case Nil
  then show ?case by simp
next
  case (Cons x xs)
  then show ?case by (cases x) simp_all
qed

lemma foldl_reaches_PInf:
  "list_all (\<lambda>x. is_finite x \<or> x = PInf) xs \<Longrightarrow> PInf \<in> set xs \<Longrightarrow>
     foldl (fl_add rnd) (Fin a) xs = PInf"
proof (induction xs arbitrary: a)
  case Nil
  then show ?case by simp
next
  case (Cons x xs)
  then show ?case by (cases x) (auto simp: foldl_from_PInf)
qed

lemma series_mean_PInf:
  assumes "list_all (\<lambda>x. is_finite x \<or> x = PInf \<or> x = NaN) xs" and "PInf \<in> set xs"
  shows "series_mean rnd xs = PInf"
proof -
  let ?kept = "filter (\<lambda>x. x \<noteq> NaN) xs"
  from assms have "list_all (\<lambda>x. is_finite x \<or> x = PInf) ?kept" and "PInf \<in> set ?kept"
    by (auto simp: list_all_iff)
  then have "fl_sum rnd ?kept = PInf"
    by (simp add: fl_sum_def foldl_reaches_PInf)
  moreover from \<open>PInf \<in> set ?kept\<close> have "?kept \<noteq> []"
    by (metis empty_iff list.set(1))
  ultimately show ?thesis
    by (simp add: series_mean_def)
qed

lemma series_mean_kept:
  "series_mean rnd (filter (\<lambda>x. x \<noteq> NaN) xs) = series_mean rnd xs"
  by (simp add: series_mean_def)

text \<open>
  Claim C6, as amended. For aligned sequences of equal length in which some actual value
  is zero, \<open>evaluate_model\<close> raises no error. When at some point the actual value is zero
  and the computed difference \<open>actual - predicted\<close> is not, the returned MAPE is plus
  infinity. Otherwise every point with a zero actual value gives \<open>0 / 0\<close>, which is NaN, and
  the mean of pandas leaves those points out: the returned MAPE is the MAPE of the points
  whose actual value is not zero (NaN when there is none).
\<close>

theorem evaluate_model_zero_actual:
  assumes "length actual = length predicted" and "0 \<in> set actual"
  shows "\<exists>mae rmse. evaluate_model rnd (map Fin actual) (map Fin predicted) =
     Inr \<lparr>MAE = mae, RMSE = rmse, MAPE =
       (if list_ex (\<lambda>(a, p). a = 0 \<and> rnd (a - p) \<noteq> 0) (zip actual predicted) then PInf
        else mape_of rnd
               (map Fin (map fst (filter (\<lambda>(a, p). a \<noteq> 0) (zip actual predicted))))
               (map Fin (map snd (filter (\<lambda>(a, p). a \<noteq> 0) (zip actual predicted)))))\<rparr>"
proof -
  let ?pct = "\<lambda>(a, p). fl_abs (fl_div rnd (fl_sub rnd (Fin a) (Fin p)) (Fin a))"
  let ?pairs = "zip actual predicted"
  let ?kept = "filter (\<lambda>(a, p). a \<noteq> 0) ?pairs"
  have mape_pairs: "mape_of rnd (map Fin (map fst ps)) (map Fin (map snd ps))
      = fl_mul rnd (series_mean rnd (map ?pct ps)) (Fin 100)" for ps :: "(real \<times> real) list"
    by (simp add: mape_of_def zip_map_map zip_same_conv_map o_def split_def)
  have whole: "mape_of rnd (map Fin actual) (map Fin predicted)
      = fl_mul rnd (series_mean rnd (map ?pct ?pairs)) (Fin 100)"
    using mape_pairs [of ?pairs] assms(1) by simp
  from assms have "actual \<noteq> []" by auto
  with assms(1) have ok: "check_targets (map Fin actual) (map Fin predicted) = Inr ()"
    by (rule check_targets_finite)
  have mape: "mape_of rnd (map Fin actual) (map Fin predicted) =
       (if list_ex (\<lambda>(a, p). a = 0 \<and> rnd (a - p) \<noteq> 0) ?pairs then PInf
        else mape_of rnd (map Fin (map fst ?kept)) (map Fin (map snd ?kept)))"
  proof (cases "list_ex (\<lambda>(a, p). a = 0 \<and> rnd (a - p) \<noteq> 0) ?pairs")
    case True
    then obtain a p where "(a, p) \<in> set ?pairs" and "a = 0" and "rnd (a - p) \<noteq> 0"
      by (auto simp: list_ex_iff)
    then have "?pct (a, p) \<in> set (map ?pct ?pairs)" and "?pct (a, p) = PInf"
      by (auto simp del: set_zip intro!: image_eqI [where x = "(a, p)"])
    then have "PInf \<in> set (map ?pct ?pairs)" by simp
    moreover have "is_finite (?pct x) \<or> ?pct x = PInf \<or> ?pct x = NaN" for x
      by (cases x) (simp only: prod.case pct_term, simp)
    then have "list_all (\<lambda>x. is_finite x \<or> x = PInf \<or> x = NaN) (map ?pct ?pairs)"
      by (simp add: list_all_iff)
    ultimately have "series_mean rnd (map ?pct ?pairs) = PInf"
      by (rule series_mean_PInf [rotated])
    with True show ?thesis by (simp add: whole)
  next
    case False
    then have exact: "rnd (a - p) = 0" if "(a, p) \<in> set ?pairs" and "a = 0" for a p
      using that by (auto simp: list_ex_iff)
    have key: "(?pct (a, p) \<noteq> NaN) = (a \<noteq> 0)" if "(a, p) \<in> set ?pairs" for a p
    proof (cases "a = 0")
      case True
      with exact [OF that] have "rnd (a - p) = 0" .
      with True show ?thesis by (simp only: prod.case pct_term) simp
    next
      case False
      then show ?thesis by (simp only: prod.case pct_term) simp
    qed
    have key': "((\<lambda>t. t \<noteq> NaN) \<circ> ?pct) x = (case x of (a, p) \<Rightarrow> a \<noteq> 0)"
      if "x \<in> set ?pairs" for x
    proof (cases x)
      case (Pair a p)
      with that have "(a, p) \<in> set ?pairs" by simp
      from key [OF this] Pair show ?thesis by (simp only: o_apply prod.case)
    qed
    have "filter (\<lambda>x. x \<noteq> NaN) (map ?pct ?pairs) = map ?pct ?kept"
      unfolding filter_map
      by (rule arg_cong [where f = "map ?pct"], rule filter_cong [OF refl]) (rule key')
    moreover have "filter (\<lambda>x. x \<noteq> NaN) (map ?pct ?kept) = map ?pct ?kept"
      by (rule filter_True) (use key in auto)
    ultimately have eq: "series_mean rnd (map ?pct ?pairs) = series_mean rnd (map ?pct ?kept)"
      by (metis series_mean_kept)
    show ?thesis by (simp only: False if_False whole mape_pairs eq)
  qed
  show ?thesis
    using ok mape
    by (simp add: evaluate_model_def mean_absolute_error_def mean_squared_error_def)
qed

text \<open>
  Claim C6, as amended, at the actual values 0, 2 and the predictions 1, 1, with exact
  arithmetic.
\<close>

theorem evaluate_model_zero_actual_witness:
  "length [0, 2 :: real] = length [1, 1 :: real] \<and> 0 \<in> set [0, 2 :: real]
   \<and> (\<exists>mae rmse. evaluate_model (\<lambda>v. v) (map Fin [0, 2]) (map Fin [1, 1])
          = Inr \<lparr>MAE = mae, RMSE = rmse, MAPE = PInf\<rparr>)"
  using evaluate_model_zero_actual [of "[0, 2]" "[1, 1]" "\<lambda>v. v"]
  by simp

text \<open>
  Claim C6 as stated fails: for the actual value 0 and the prediction 1 the call raises
  nothing, skips nothing and returns plus infinity as the MAPE.
\<close>

theorem mape_infinite_counterexample:
  "evaluate_model (\<lambda>v. v) [Fin 0] [Fin 1] = Inr \<lparr>MAE = Fin 1, RMSE = Fin 1, MAPE = PInf\<rparr>"
  by (simp add: evaluate_model_def mean_absolute_error_def mean_squared_error_def
      check_targets_def array_mean_def series_mean_def fl_sum_def mape_of_def)

end

